theory Spec2Isabelle
  imports
    Complex_Main
    "HOL-Library.Product_Lexorder"
    "HOL-Library.List_Lexorder"
    "HOL-Library.Char_ord"
    "HOL-Library.Multiset"
begin

section \<open>Python values\<close>

text \<open>
  The model of \<^verbatim>\<open>main.py\<close> follows the types of the provider's JSON. A member of
  a JSON object is absent, \<^verbatim>\<open>null\<close> or present with a value; a Python expression that
  may evaluate to \<^verbatim>\<open>None\<close> has an \<open>option\<close> type. JSON numbers and Python floats
  are exact rationals: the rounding error of IEEE doubles is outside the model.
  Strings are lists of characters with code points below 256.
  Every exception the source can raise on such input is a value \<open>Inl e\<close>.
\<close>

datatype py_error =
  AttributeError | TypeError | ZeroDivisionError | IndexError | ValueError | RequestException

datatype 'a field = Missing | Null | Val 'a

text \<open>\<^verbatim>\<open>d.get(k)\<close>: \<^verbatim>\<open>None\<close> for an absent key and for a null value.\<close>

fun get :: "'a field \<Rightarrow> 'a option" where
  "get Missing = None"
| "get Null = None"
| "get (Val v) = Some v"

text \<open>\<^verbatim>\<open>d.get(k, dflt)\<close>: the default replaces an absent key only.\<close>

fun get_default :: "'a field \<Rightarrow> 'a \<Rightarrow> 'a option" where
  "get_default Missing d = Some d"
| "get_default Null d = None"
| "get_default (Val v) d = Some v"

text \<open>Truthiness of a number that may be \<^verbatim>\<open>None\<close>, and of a string.\<close>

fun truthy_num :: "'a::zero option \<Rightarrow> bool" where
  "truthy_num None = False"
| "truthy_num (Some x) = (x \<noteq> 0)"

fun truthy_str :: "string option \<Rightarrow> bool" where
  "truthy_str None = False"
| "truthy_str (Some s) = (s \<noteq> [])"

text \<open>\<^verbatim>\<open>a / b\<close> on numbers.\<close>

definition py_truediv :: "rat \<Rightarrow> rat \<Rightarrow> py_error + rat" where
  "py_truediv a b = (if b = 0 then Inl ZeroDivisionError else Inr (a / b))"

text \<open>
  \<^verbatim>\<open>round(x, n)\<close> on the exact value: to the nearest multiple of \<open>10\<^sup>-\<^sup>n\<close>,
  a tie going to the even one.
\<close>

definition round_half_even :: "rat \<Rightarrow> int" where
  "round_half_even y =
     (let f = \<lfloor>y\<rfloor>; d = y - of_int f
      in if d < 1 / 2 then f
         else if 1 / 2 < d then f + 1
         else if even f then f else f + 1)"

definition py_round :: "rat \<Rightarrow> nat \<Rightarrow> rat" where
  "py_round x n = of_int (round_half_even (x * 10 ^ n)) / 10 ^ n"

section \<open>Utility functions\<close>

text \<open>
  \<^verbatim>\<open>
  def normalize(value, max_value):
      if not value or not max_value:
          return 0
      return value / max_value
  \<close>
\<close>

definition normalize :: "rat option \<Rightarrow> rat option \<Rightarrow> py_error + rat" where
  "normalize value max_value =
     (if \<not> truthy_num value \<or> \<not> truthy_num max_value then Inr 0
      else (case (value, max_value) of
              (Some v, Some m) \<Rightarrow> py_truediv v m
            | _ \<Rightarrow> Inl TypeError))"

subsection \<open>Strings\<close>

text \<open>\<^verbatim>\<open>sep.join(xs)\<close>.\<close>

fun join :: "string \<Rightarrow> string list \<Rightarrow> string" where
  "join sep [] = []"
| "join sep [x] = x"
| "join sep (x # y # ys) = x @ sep @ join sep (y # ys)"

text \<open>\<^verbatim>\<open>s.split(sep)\<close> for a separator of one character: never the empty list.\<close>

fun split_on :: "char \<Rightarrow> string \<Rightarrow> string list" where
  "split_on sep [] = [[]]"
| "split_on sep (c # cs) =
     (if c = sep then [] # split_on sep cs
      else (case split_on sep cs of
              [] \<Rightarrow> [[c]]
            | w # ws \<Rightarrow> (c # w) # ws))"

text \<open>\<^verbatim>\<open>s.rfind(c)\<close>: the last index of the character, or -1.\<close>

fun rfind_from :: "char \<Rightarrow> string \<Rightarrow> int \<Rightarrow> int \<Rightarrow> int" where
  "rfind_from c [] i found = found"
| "rfind_from c (x # xs) i found = rfind_from c xs (i + 1) (if x = c then i else found)"

definition rfind :: "char \<Rightarrow> string \<Rightarrow> int" where
  "rfind c s = rfind_from c s 0 (- 1)"

text \<open>
  \<^verbatim>\<open>s.strip()\<close> removes the characters of \<^verbatim>\<open>str.isspace\<close> at both ends; below
  code point 256 these are 9 to 13, 28 to 32, 133 and 160.
\<close>

definition py_isspace :: "char \<Rightarrow> bool" where
  "py_isspace c =
     (let n = (of_char c :: nat)
      in (9 \<le> n \<and> n \<le> 13) \<or> (28 \<le> n \<and> n \<le> 32) \<or> n = 133 \<or> n = 160)"

definition strip :: "string \<Rightarrow> string" where
  "strip s = rev (dropWhile py_isspace (rev (dropWhile py_isspace s)))"

text \<open>\<^verbatim>\<open>str(n)\<close> for an integer.\<close>

definition digit_char :: "nat \<Rightarrow> char" where
  "digit_char d = char_of (48 + d)"

fun str_nat :: "nat \<Rightarrow> string" where
  "str_nat n = (if n < 10 then [digit_char n] else str_nat (n div 10) @ [digit_char (n mod 10)])"

declare str_nat.simps [simp del]

definition str_int :: "int \<Rightarrow> string" where
  "str_int i = (if i < 0 then CHR ''-'' # str_nat (nat (- i)) else str_nat (nat i))"

text \<open>\<^verbatim>\<open>x or dflt\<close> for a string that may be \<^verbatim>\<open>None\<close>.\<close>

fun str_or :: "string option \<Rightarrow> string \<Rightarrow> string" where
  "str_or None d = d"
| "str_or (Some s) d = (if s = [] then d else s)"

subsection \<open>Abstract reconstruction\<close>

text \<open>
  \<^verbatim>\<open>
  def reconstruct_abstract(inv_index):
      if not inv_index:
          return ""
      word_positions = []
      for word, positions in inv_index.items():
          for pos in positions:
              word_positions.append((pos, word))
      word_positions.sort()
      return " ".join([w[1] for w in word_positions])
  \<close>
  The inverted index is a dictionary from a word to its list of integer positions,
  here the list of its items in iteration order. Sorting the tuples compares the
  position first and the word second; this order is total, so the sorted list is
  the one \<open>sort\<close> returns.
\<close>

fun append_positions :: "string \<Rightarrow> int list \<Rightarrow> (int \<times> string) list \<Rightarrow> (int \<times> string) list" where
  "append_positions word [] word_positions = word_positions"
| "append_positions word (pos # positions) word_positions =
     append_positions word positions (word_positions @ [(pos, word)])"

fun collect_positions :: "(string \<times> int list) list \<Rightarrow> (int \<times> string) list \<Rightarrow> (int \<times> string) list" where
  "collect_positions [] word_positions = word_positions"
| "collect_positions ((word, positions) # items) word_positions =
     collect_positions items (append_positions word positions word_positions)"

definition reconstruct_abstract :: "(string \<times> int list) list option \<Rightarrow> string" where
  "reconstruct_abstract inv_index =
     (case inv_index of
        None \<Rightarrow> []
      | Some d \<Rightarrow>
          if d = [] then []
          else join '' '' (map snd (sort (collect_positions d []))))"

text \<open>
  \<^verbatim>\<open>
  def get_snippet(text, max_chars=500):
      if not text:
          return ""
      snippet = text[:max_chars]
      last_period = snippet.rfind(".")
      if last_period != -1:
          snippet = snippet[:last_period + 1]
      return snippet.strip()
  \<close>
\<close>

definition get_snippet :: "string \<Rightarrow> nat \<Rightarrow> string" where
  "get_snippet text max_chars =
     (if text = [] then []
      else (let snippet = take max_chars text;
                last_period = rfind CHR ''.'' snippet;
                snippet' = (if last_period \<noteq> - 1 then take (nat (last_period + 1)) snippet
                            else snippet)
            in strip snippet'))"

section \<open>Raw work items and paper records\<close>

text \<open>
  The members of a raw work item that \<^verbatim>\<open>main.py\<close> reads, with the types the
  provider documents. Each nested object may be absent or null.
\<close>

record source_obj =
  source_display_name :: "string field"
  host_organization_name :: "string field"

record location_obj =
  source :: "source_obj field"

record author_obj =
  author_display_name :: "string field"
  author_id :: "string field"
  author_orcid :: "string field"

record authorship_obj =
  author :: "author_obj field"

record concept_obj =
  concept_display_name :: "string field"
  concept_score :: "rat field"

record open_access_obj =
  is_oa :: "bool field"
  oa_url :: "string field"

record work_item =
  item_id :: "string field"
  item_title :: "string field"
  item_doi :: "string field"
  item_type :: "string field"
  relevance_score :: "rat field"
  cited_by_count :: "int field"
  publication_year :: "int field"
  abstract_inverted_index :: "(string \<times> int list) list field"
  primary_location :: "location_obj field"
  authorships :: "authorship_obj list field"
  concepts :: "concept_obj list field"
  open_access :: "open_access_obj field"

text \<open>The empty dictionary \<^verbatim>\<open>{}\<close> at each of these types.\<close>

definition empty_source :: source_obj where
  "empty_source = \<lparr>source_display_name = Missing, host_organization_name = Missing\<rparr>"

definition empty_location :: location_obj where
  "empty_location = \<lparr>source = Missing\<rparr>"

definition empty_author :: author_obj where
  "empty_author = \<lparr>author_display_name = Missing, author_id = Missing, author_orcid = Missing\<rparr>"

definition empty_open_access :: open_access_obj where
  "empty_open_access = \<lparr>is_oa = Missing, oa_url = Missing\<rparr>"

text \<open>
  \<^verbatim>\<open>x or dflt\<close> for a dictionary or list that may be \<^verbatim>\<open>None\<close>, where
  \<^verbatim>\<open>dflt\<close> is the empty one: an empty \<^verbatim>\<open>x\<close> is replaced by its equal.
\<close>

fun or_empty :: "'a option \<Rightarrow> 'a \<Rightarrow> 'a" where
  "or_empty None d = d"
| "or_empty (Some x) d = x"

text \<open>The dictionaries that \<^verbatim>\<open>build_paper_result\<close> and its helpers return.\<close>

record author_entry =
  entry_name :: string
  entry_id :: "string option"
  entry_orcid :: "string option"

record concept_entry =
  concept_name :: "string option"
  concept_entry_score :: rat

record paper =
  paper_id :: "string option"
  paper_title :: string
  paper_year :: "int option"
  paper_authors :: "author_entry list"
  paper_journal :: string
  paper_publisher :: string
  paper_citations :: "int option"
  paper_open_access :: "bool option"
  paper_oa_url :: "string option"
  paper_doi :: string
  paper_abstract :: string
  paper_summary :: string
  paper_concepts :: "concept_entry list"
  paper_type :: "string option"
  paper_score :: rat
  paper_scopus_search_url :: "string option"

section \<open>Projection of a raw item\<close>

text \<open>
  \<^verbatim>\<open>
  def safe_journal_info(item):
      primary_location = item.get("primary_location") or {}
      source = primary_location.get("source") or {}
      journal_name = source.get("display_name") or "Unknown Journal"
      publisher_name = source.get("host_organization_name") or "Unknown Publisher"
      return journal_name, publisher_name
  \<close>
\<close>

definition safe_journal_info :: "work_item \<Rightarrow> string \<times> string" where
  "safe_journal_info item =
     (let primary_location' = or_empty (get (primary_location item)) empty_location;
          source' = or_empty (get (source primary_location')) empty_source;
          journal_name = str_or (get (source_display_name source')) ''Unknown Journal'';
          publisher_name = str_or (get (host_organization_name source')) ''Unknown Publisher''
      in (journal_name, publisher_name))"

text \<open>
  \<^verbatim>\<open>
  def extract_authors(item, max_authors=5):
      authorships = item.get("authorships") or []
      authors = []
      for a in authorships[:max_authors]:
          author = a.get("author") or {}
          name = author.get("display_name")
          if name:
              authors.append({
                  "name": name,
                  "id": author.get("id", ""),
                  "orcid": author.get("orcid", "")
              })
      if len(authorships) > max_authors:
          authors.append({"name": f"+{len(authorships) - max_authors} more", "id": "", "orcid": ""})
      return authors
  \<close>
\<close>

fun authors_loop :: "authorship_obj list \<Rightarrow> author_entry list \<Rightarrow> author_entry list" where
  "authors_loop [] authors = authors"
| "authors_loop (a # rest) authors =
     (let author' = or_empty (get (author a)) empty_author
      in case get (author_display_name author') of
           None \<Rightarrow> authors_loop rest authors
         | Some name \<Rightarrow>
             if name = [] then authors_loop rest authors
             else authors_loop rest
                    (authors @ [\<lparr>entry_name = name,
                                 entry_id = get_default (author_id author') [],
                                 entry_orcid = get_default (author_orcid author') []\<rparr>]))"

definition extract_authors :: "work_item \<Rightarrow> nat \<Rightarrow> author_entry list" where
  "extract_authors item max_authors =
     (let authorships' = or_empty (get (authorships item)) [];
          authors = authors_loop (take max_authors authorships') []
      in if length authorships' > max_authors
         then authors @ [\<lparr>entry_name = ''+'' @ str_nat (length authorships' - max_authors) @ '' more'',
                          entry_id = Some [], entry_orcid = Some []\<rparr>]
         else authors)"

text \<open>
  \<^verbatim>\<open>
  def extract_concepts(item, max_concepts=5):
      concepts = item.get("concepts") or []
      return [
          {"name": c.get("display_name", ""), "score": round(c.get("score", 0), 2)}
          for c in concepts[:max_concepts]
          if c.get("score", 0) > 0.3
      ]
  \<close>
  Comparing \<^verbatim>\<open>None\<close> with a number raises \<^verbatim>\<open>TypeError\<close>.
\<close>

fun concepts_comprehension :: "concept_obj list \<Rightarrow> py_error + concept_entry list" where
  "concepts_comprehension [] = Inr []"
| "concepts_comprehension (c # rest) =
     (case get_default (concept_score c) 0 of
        None \<Rightarrow> Inl TypeError
      | Some score \<Rightarrow>
          (case concepts_comprehension rest of
             Inl e \<Rightarrow> Inl e
           | Inr entries \<Rightarrow>
               if score > 3 / 10
               then Inr (\<lparr>concept_name = get_default (concept_display_name c) [],
                          concept_entry_score = py_round score 2\<rparr> # entries)
               else Inr entries))"

definition extract_concepts :: "work_item \<Rightarrow> nat \<Rightarrow> py_error + concept_entry list" where
  "extract_concepts item max_concepts =
     concepts_comprehension (take max_concepts (or_empty (get (concepts item)) []))"

text \<open>
  \<^verbatim>\<open>
  def get_scopus_search_url(title: str) -> str:
      from urllib.parse import quote
      return f"https://www.scopus.com/results/results.uri?sort=plf-f&src=s&sot=b&sdt=b&sl=50&s=TITLE%28{quote(title)}%29"
  \<close>
  The library function \<^verbatim>\<open>urllib.parse.quote\<close> is a parameter.
\<close>

definition get_scopus_search_url :: "(string \<Rightarrow> string) \<Rightarrow> string \<Rightarrow> string" where
  "get_scopus_search_url quote title =
     ''https://www.scopus.com/results/results.uri?sort=plf-f&src=s&sot=b&sdt=b&sl=50&s=TITLE%28''
     @ quote title @ ''%29''"

text \<open>
  The component scores of \<^verbatim>\<open>build_paper_result\<close>:
  \<^verbatim>\<open>
      citation_score = normalize(citations, max_citations) if max_citations else 0
      year_range = max(end_year - start_year, 1)
      recency_score = normalize(year - start_year, year_range) if year else 0
  \<close>
\<close>

definition citation_score :: "int option \<Rightarrow> int \<Rightarrow> py_error + rat" where
  "citation_score citations max_citations =
     (if max_citations \<noteq> 0
      then normalize (map_option of_int citations) (Some (of_int max_citations))
      else Inr 0)"

definition year_range :: "int \<Rightarrow> int \<Rightarrow> int" where
  "year_range start_year end_year = max (end_year - start_year) 1"

definition recency_score :: "int option \<Rightarrow> int \<Rightarrow> int \<Rightarrow> py_error + rat" where
  "recency_score year start_year end_year =
     (case year of
        None \<Rightarrow> Inr 0
      | Some y \<Rightarrow>
          if y \<noteq> 0
          then normalize (Some (of_int (y - start_year)))
                 (Some (of_int (year_range start_year end_year)))
          else Inr 0)"

text \<open>
  \<^verbatim>\<open>
  def build_paper_result(item, start_year, end_year, max_citations):
      relevance = item.get("relevance_score") or 0
      citations = item.get("cited_by_count", 0)
      year = item.get("publication_year", 0)
      ...
      final_score = (relevance * 0.5 + citation_score * 0.3 + recency_score * 0.2)
      abstract_raw = reconstruct_abstract(item.get("abstract_inverted_index"))
      snippet = get_snippet(abstract_raw) or "No abstract available."
      journal_name, publisher_name = safe_journal_info(item)
      authors = extract_authors(item)
      concepts = extract_concepts(item)
      openalex_id = item.get("id", "")
      doi = item.get("doi") or ""
      title = item.get("title") or ""
      scopus_search_link = get_scopus_search_url(title) if title else None
      return { ...
          "open_access": item.get("open_access", {}).get("is_oa", False),
          "oa_url": item.get("open_access", {}).get("oa_url", ""),
          ...
          "score": round(final_score, 4), ... }
  \<close>
  Calling \<^verbatim>\<open>.get\<close> on \<^verbatim>\<open>None\<close> raises \<^verbatim>\<open>AttributeError\<close>.
\<close>

definition relevance_of :: "work_item \<Rightarrow> rat" where
  "relevance_of item = (case get (relevance_score item) of None \<Rightarrow> 0 | Some r \<Rightarrow> r)"

definition build_paper_result ::
    "(string \<Rightarrow> string) \<Rightarrow> work_item \<Rightarrow> int \<Rightarrow> int \<Rightarrow> int \<Rightarrow> py_error + paper" where
  "build_paper_result quote item start_year end_year max_citations =
     (let relevance = relevance_of item;
          citations = get_default (cited_by_count item) 0;
          year = get_default (publication_year item) 0
      in case citation_score citations max_citations of
           Inl e \<Rightarrow> Inl e
         | Inr citation_score' \<Rightarrow>
       (case recency_score year start_year end_year of
           Inl e \<Rightarrow> Inl e
         | Inr recency_score' \<Rightarrow>
       (let final_score = relevance * (1 / 2) + citation_score' * (3 / 10) + recency_score' * (1 / 5);
            abstract_raw = reconstruct_abstract (get (abstract_inverted_index item));
            snippet = (let s = get_snippet abstract_raw 500
                       in if s = [] then ''No abstract available.'' else s);
            (journal_name, publisher_name) = safe_journal_info item;
            authors = extract_authors item 5
        in case extract_concepts item 5 of
             Inl e \<Rightarrow> Inl e
           | Inr concepts' \<Rightarrow>
         (let openalex_id = get_default (item_id item) [];
              doi = str_or (get (item_doi item)) [];
              title = str_or (get (item_title item)) [];
              scopus_search_link =
                (if title \<noteq> [] then Some (get_scopus_search_url quote title) else None)
          in case get_default (open_access item) empty_open_access of
               None \<Rightarrow> Inl AttributeError
             | Some oa \<Rightarrow>
                 Inr \<lparr>paper_id = openalex_id,
                      paper_title = title,
                      paper_year = year,
                      paper_authors = authors,
                      paper_journal = journal_name,
                      paper_publisher = publisher_name,
                      paper_citations = citations,
                      paper_open_access = get_default (is_oa oa) False,
                      paper_oa_url = get_default (oa_url oa) [],
                      paper_doi = doi,
                      paper_abstract = abstract_raw,
                      paper_summary = snippet,
                      paper_concepts = concepts',
                      paper_type = get_default (item_type item) [],
                      paper_score = py_round final_score 4,
                      paper_scopus_search_url = scopus_search_link\<rparr>))))"

section \<open>Search results\<close>





record search_response =
  total_journals :: nat
  results :: "paper list"


section \<open>Provider selection\<close>

text \<open>
  The configuration read at start-up, and the answer of the local provider to
  \<^verbatim>\<open>GET /api/tags\<close>: the request fails, or a response with a status code and a
  body that is JSON or not.
\<close>

record config =
  LLM_PROVIDER :: string
  OLLAMA_MODEL :: string
  OPENAI_API_KEY :: string

record model_obj =
  model_name :: "string field"

record tags_body =
  models :: "model_obj list field"

datatype tags_reply = RequestFailed | Reply int "tags_body option"

text \<open>\<^verbatim>\<open>s.split(":")[0]\<close>\<close>

definition split_first :: "string \<Rightarrow> py_error + string" where
  "split_first s = (case split_on CHR '':'' s of [] \<Rightarrow> Inl IndexError | x # _ \<Rightarrow> Inr x)"

fun model_names :: "model_obj list \<Rightarrow> py_error + string list" where
  "model_names [] = Inr []"
| "model_names (m # ms) =
     (case get_default (model_name m) [] of
        None \<Rightarrow> Inl AttributeError
      | Some n \<Rightarrow>
          (case split_first n of
             Inl e \<Rightarrow> Inl e
           | Inr x \<Rightarrow>
               (case model_names ms of
                  Inl e \<Rightarrow> Inl e
                | Inr xs \<Rightarrow> Inr (x # xs))))"

text \<open>
  \<^verbatim>\<open>
  def check_ollama_available():
      try:
          resp = requests.get(f"{OLLAMA_BASE_URL}/api/tags", timeout=3)
          if resp.status_code == 200:
              models = [m.get("name", "").split(":")[0] for m in resp.json().get("models", [])]
              return OLLAMA_MODEL.split(":")[0] in models
      except Exception:
          pass
      return False
  \<close>
  The body of the \<^verbatim>\<open>try\<close> returns a value, falls through (\<open>None\<close>) or raises.
\<close>

definition check_ollama_try :: "config \<Rightarrow> tags_reply \<Rightarrow> py_error + bool option" where
  "check_ollama_try cfg reply =
     (case reply of
        RequestFailed \<Rightarrow> Inl RequestException
      | Reply status_code body \<Rightarrow>
          if status_code = 200
          then (case body of
                  None \<Rightarrow> Inl ValueError
                | Some b \<Rightarrow>
                    (case get_default (models b) [] of
                       None \<Rightarrow> Inl TypeError
                     | Some ms \<Rightarrow>
                         (case model_names ms of
                            Inl e \<Rightarrow> Inl e
                          | Inr models' \<Rightarrow>
                              (case split_first (OLLAMA_MODEL cfg) of
                                 Inl e \<Rightarrow> Inl e
                               | Inr x \<Rightarrow> Inr (Some (x \<in> set models'))))))
          else Inr None)"

definition check_ollama_available :: "config \<Rightarrow> tags_reply \<Rightarrow> bool" where
  "check_ollama_available cfg reply =
     (case check_ollama_try cfg reply of
        Inr (Some b) \<Rightarrow> b
      | _ \<Rightarrow> False)"

text \<open>
  \<^verbatim>\<open>
  def get_active_llm_provider():
      if LLM_PROVIDER == "openai" and OPENAI_API_KEY:
          return "openai"
      if LLM_PROVIDER == "ollama":
          return "ollama"
      # auto mode: try Ollama first (free), then OpenAI
      if check_ollama_available():
          return "ollama"
      if OPENAI_API_KEY:
          return "openai"
      return None
  \<close>
\<close>

definition get_active_llm_provider :: "config \<Rightarrow> tags_reply \<Rightarrow> string option" where
  "get_active_llm_provider cfg reply =
     (if LLM_PROVIDER cfg = ''openai'' \<and> OPENAI_API_KEY cfg \<noteq> [] then Some ''openai''
      else if LLM_PROVIDER cfg = ''ollama'' then Some ''ollama''
      else if check_ollama_available cfg reply then Some ''ollama''
      else if OPENAI_API_KEY cfg \<noteq> [] then Some ''openai''
      else None)"

section \<open>Citation formatting\<close>

text \<open>
  The paper of a citation request is a dictionary of the request body: every member
  may be absent or null.
\<close>

record cite_author =
  cite_name :: "string field"

record cite_paper =
  cite_authors :: "cite_author list field"
  cite_doi :: "string field"
  cite_title :: "string field"
  cite_year :: "int field"
  cite_journal :: "string field"
  cite_publisher :: "string field"

text \<open>\<^verbatim>\<open>sub in s\<close> on strings.\<close>

fun str_contains :: "string \<Rightarrow> string \<Rightarrow> bool" where
  "str_contains sub [] = (sub = [])"
| "str_contains sub (c # cs) = (take (length sub) (c # cs) = sub \<or> str_contains sub cs)"

text \<open>
  \<^verbatim>\<open>[a["name"] for a in authors if a.get("name") and "more" not in a["name"]]\<close>
\<close>

fun author_names :: "cite_author list \<Rightarrow> string list" where
  "author_names [] = []"
| "author_names (a # rest) =
     (case get (cite_name a) of
        None \<Rightarrow> author_names rest
      | Some n \<Rightarrow>
          if n \<noteq> [] \<and> \<not> str_contains ''more'' n then n # author_names rest
          else author_names rest)"

text \<open>A value in an f-string: \<^verbatim>\<open>None\<close> prints as its name.\<close>

fun fmt_str :: "string option \<Rightarrow> string" where
  "fmt_str None = ''None''"
| "fmt_str (Some s) = s"

definition newline :: string where
  "newline = [CHR 0x0A]"

text \<open>\<^verbatim>\<open>xs[-1]\<close>\<close>

definition last_item :: "'a list \<Rightarrow> py_error + 'a" where
  "last_item xs = (if xs = [] then Inl IndexError else Inr (last xs))"

text \<open>
  \<^verbatim>\<open>
  def format_bibtex(paper):
      author_str = " and ".join([a["name"] for a in paper.get("authors", []) if a.get("name") and "more" not in a["name"]])
      doi = paper.get("doi", "") or ""
      key = doi.split("/")[-1] if doi else paper.get("title", "unknown")[:20].replace(" ", "_")
      year = paper.get("year", "")
      return (f"@article{{{key},\n" f"  title = {{{paper.get('title', '')}}},\n"
              f"  author = {{{author_str}}},\n" f"  journal = {{{paper.get('journal', '')}}},\n"
              f"  year = {{{year}}},\n" f"  doi = {{{doi}}},\n"
              f"  publisher = {{{paper.get('publisher', '')}}}\n" f"}}\n")
  \<close>
  Iterating over \<^verbatim>\<open>None\<close> and slicing \<^verbatim>\<open>None\<close> raise \<^verbatim>\<open>TypeError\<close>.
\<close>

definition bibtex_key :: "cite_paper \<Rightarrow> string \<Rightarrow> py_error + string" where
  "bibtex_key paper doi =
     (if doi \<noteq> [] then last_item (split_on CHR ''/'' doi)
      else (case get_default (cite_title paper) ''unknown'' of
              None \<Rightarrow> Inl TypeError
            | Some t \<Rightarrow> Inr (map (\<lambda>c. if c = CHR '' '' then CHR ''_'' else c) (take 20 t))))"

definition format_bibtex :: "cite_paper \<Rightarrow> py_error + string" where
  "format_bibtex paper =
     (case get_default (cite_authors paper) [] of
        None \<Rightarrow> Inl TypeError
      | Some authors \<Rightarrow>
          (let author_str = join '' and '' (author_names authors);
               doi = str_or (get_default (cite_doi paper) []) []
           in case bibtex_key paper doi of
                Inl e \<Rightarrow> Inl e
              | Inr key \<Rightarrow>
                  (let year = (case cite_year paper of Missing \<Rightarrow> [] | Null \<Rightarrow> ''None''
                               | Val y \<Rightarrow> str_int y)
                   in Inr (''@article{'' @ key @ '','' @ newline
                       @ ''  title = {'' @ fmt_str (get_default (cite_title paper) []) @ ''},'' @ newline
                       @ ''  author = {'' @ author_str @ ''},'' @ newline
                       @ ''  journal = {'' @ fmt_str (get_default (cite_journal paper) []) @ ''},'' @ newline
                       @ ''  year = {'' @ year @ ''},'' @ newline
                       @ ''  doi = {'' @ doi @ ''},'' @ newline
                       @ ''  publisher = {'' @ fmt_str (get_default (cite_publisher paper) []) @ ''}'' @ newline
                       @ ''}'' @ newline))))"

text \<open>
  \<^verbatim>\<open>
  def format_apa(paper):
      authors = paper.get("authors", [])
      author_names = [a["name"] for a in authors if a.get("name") and "more" not in a["name"]]
      if len(author_names) == 0:
          author_str = "Unknown"
      elif len(author_names) == 1:
          author_str = author_names[0]
      elif len(author_names) == 2:
          author_str = f"{author_names[0]} & {author_names[1]}"
      else:
          author_str = ", ".join(author_names[:-1]) + f", & {author_names[-1]}"
      year = paper.get("year", "n.d.")
      title = paper.get("title", "")
      journal = paper.get("journal", "")
      doi = paper.get("doi", "")
      citation = f"{author_str} ({year}). {title}. *{journal}*."
      if doi:
          citation += f" {doi}"
      return citation
  \<close>
\<close>

fun apa_author_str :: "string list \<Rightarrow> string" where
  "apa_author_str [] = ''Unknown''"
| "apa_author_str [a] = a"
| "apa_author_str [a, b] = a @ '' & '' @ b"
| "apa_author_str names = join '', '' (butlast names) @ '', & '' @ last names"

definition format_apa :: "cite_paper \<Rightarrow> py_error + string" where
  "format_apa paper =
     (case get_default (cite_authors paper) [] of
        None \<Rightarrow> Inl TypeError
      | Some authors \<Rightarrow>
          (let author_str = apa_author_str (author_names authors);
               year = (case cite_year paper of Missing \<Rightarrow> ''n.d.'' | Null \<Rightarrow> ''None''
                       | Val y \<Rightarrow> str_int y);
               title = get_default (cite_title paper) [];
               journal = get_default (cite_journal paper) [];
               doi = get_default (cite_doi paper) [];
               citation = author_str @ '' ('' @ year @ ''). '' @ fmt_str title
                          @ ''. *'' @ fmt_str journal @ ''*.''
           in Inr (if truthy_str doi then citation @ '' '' @ fmt_str doi else citation)))"

section \<open>Notions used in the statements\<close>

text \<open>A raw item, and a citation request, with every member absent.\<close>

definition blank_item :: work_item where
  "blank_item =
     \<lparr>item_id = Missing, item_title = Missing, item_doi = Missing, item_type = Missing,
      relevance_score = Missing, cited_by_count = Missing, publication_year = Missing,
      abstract_inverted_index = Missing, primary_location = Missing, authorships = Missing,
      concepts = Missing, open_access = Missing\<rparr>"

definition blank_cite :: cite_paper where
  "blank_cite =
     \<lparr>cite_authors = Missing, cite_doi = Missing, cite_title = Missing, cite_year = Missing,
      cite_journal = Missing, cite_publisher = Missing\<rparr>"

text \<open>The raw authorships and concepts of an item, as the extractors read them.\<close>

definition raw_authorships :: "work_item \<Rightarrow> authorship_obj list" where
  "raw_authorships item = or_empty (get (authorships item)) []"

definition raw_concepts :: "work_item \<Rightarrow> concept_obj list" where
  "raw_concepts item = or_empty (get (concepts item)) []"

text \<open>An authorship carries a non-empty display name.\<close>

definition has_name :: "authorship_obj \<Rightarrow> bool" where
  "has_name a =
     (case get (author_display_name (or_empty (get (author a)) empty_author)) of
        None \<Rightarrow> False
      | Some n \<Rightarrow> n \<noteq> [])"

text \<open>The placeholder that stands for \<open>n\<close> further authors.\<close>

definition more_placeholder :: "nat \<Rightarrow> author_entry" where
  "more_placeholder n =
     \<lparr>entry_name = ''+'' @ str_nat n @ '' more'', entry_id = Some [], entry_orcid = Some []\<rparr>"

text \<open>The confidence of a concept (0 when absent), and the entry a concept projects to.\<close>

definition confidence :: "concept_obj \<Rightarrow> rat option" where
  "confidence c = get_default (concept_score c) 0"

definition qualifies :: "concept_obj \<Rightarrow> bool" where
  "qualifies c = (case confidence c of None \<Rightarrow> False | Some s \<Rightarrow> s > 3 / 10)"

definition entry_of_concept :: "concept_obj \<Rightarrow> concept_entry" where
  "entry_of_concept c =
     \<lparr>concept_name = get_default (concept_display_name c) [],
      concept_entry_score = py_round (case confidence c of None \<Rightarrow> 0 | Some s \<Rightarrow> s) 2\<rparr>"

text \<open>
  The concepts projection in the words of the specification: exclude the concepts of
  confidence at most 0.3, then cap the remainder.
\<close>

definition spec_extract_concepts :: "work_item \<Rightarrow> nat \<Rightarrow> concept_entry list" where
  "spec_extract_concepts item max_concepts =
     map entry_of_concept (take max_concepts (filter qualifies (raw_concepts item)))"

text \<open>A model name without its tag: the part before the first colon.\<close>

definition strip_tag :: "string \<Rightarrow> string" where
  "strip_tag s = takeWhile (\<lambda>c. c \<noteq> CHR '':'') s"

text \<open>
  The probe of the local provider succeeds when the request returns status 200 with
  a JSON body whose model list can be read; it then yields the listed names.
\<close>

fun listed_name :: "model_obj \<Rightarrow> string option" where
  "listed_name m = get_default (model_name m) []"

definition probe_models :: "tags_reply \<Rightarrow> string list option" where
  "probe_models reply =
     (case reply of
        RequestFailed \<Rightarrow> None
      | Reply status_code body \<Rightarrow>
          (case body of
             None \<Rightarrow> None
           | Some b \<Rightarrow>
               (case get_default (models b) [] of
                  None \<Rightarrow> None
                | Some ms \<Rightarrow>
                    if status_code = 200 \<and> list_all (\<lambda>m. listed_name m \<noteq> None) ms
                    then Some (map (\<lambda>m. case listed_name m of None \<Rightarrow> [] | Some n \<Rightarrow> n) ms)
                    else None)))"

definition local_selected :: "config \<Rightarrow> tags_reply \<Rightarrow> bool" where
  "local_selected cfg reply =
     (case probe_models reply of
        None \<Rightarrow> False
      | Some names \<Rightarrow> strip_tag (OLLAMA_MODEL cfg) \<in> set (map strip_tag names))"

text \<open>An author of a citation request whose name contains \<^verbatim>\<open>more\<close>.\<close>

definition name_has_more :: "cite_author \<Rightarrow> bool" where
  "name_has_more a = (case get (cite_name a) of None \<Rightarrow> False | Some n \<Rightarrow> str_contains ''more'' n)"

text \<open>Example items: seven authorships with names, and seven without.\<close>

definition named_authorship :: "string \<Rightarrow> authorship_obj" where
  "named_authorship n =
     \<lparr>author = Val \<lparr>author_display_name = Val n, author_id = Missing, author_orcid = Null\<rparr>\<rparr>"

definition seven_named :: work_item where
  "seven_named = blank_item\<lparr>authorships :=
     Val (map named_authorship [''A'', ''B'', ''C'', ''D'', ''E'', ''F'', ''G''])\<rparr>"

definition seven_unnamed :: work_item where
  "seven_unnamed = blank_item\<lparr>authorships := Val (replicate 7 \<lparr>author = Missing\<rparr>)\<rparr>"

text \<open>
  Example items: five concepts of confidence 0.1 followed by one of confidence 0.9,
  and three concepts of confidence 0.9, 0.2 and 0.456.
\<close>

definition low_then_high :: work_item where
  "low_then_high = blank_item\<lparr>concepts := Val
     (replicate 5 \<lparr>concept_display_name = Val ''low'', concept_score = Val (1 / 10)\<rparr>
      @ [\<lparr>concept_display_name = Val ''high'', concept_score = Val (9 / 10)\<rparr>])\<rparr>"

definition three_concepts :: work_item where
  "three_concepts = blank_item\<lparr>concepts := Val
     [\<lparr>concept_display_name = Val ''a'', concept_score = Val (9 / 10)\<rparr>,
      \<lparr>concept_display_name = Val ''b'', concept_score = Val (2 / 10)\<rparr>,
      \<lparr>concept_display_name = Missing, concept_score = Val (456 / 1000)\<rparr>]\<rparr>"





text \<open>
  Example configuration in mode \<^verbatim>\<open>auto\<close> with a given remote credential, and a reply
  of the local provider that lists the configured model under a tag.
\<close>

definition auto_cfg :: "string \<Rightarrow> config" where
  "auto_cfg key = \<lparr>LLM_PROVIDER = ''auto'', OLLAMA_MODEL = ''llama3.2'', OPENAI_API_KEY = key\<rparr>"

definition tags_ok :: tags_reply where
  "tags_ok = Reply 200 (Some \<lparr>models = Val [\<lparr>model_name = Val ''mistral:7b''\<rparr>,
                                              \<lparr>model_name = Val ''llama3.2:latest''\<rparr>]\<rparr>)"

text \<open>
  Example citation request: two genuine authors, one with \<^verbatim>\<open>more\<close> inside the name,
  and the overflow placeholder.
\<close>

definition papert_paper :: cite_paper where
  "papert_paper = blank_cite\<lparr>
     cite_authors := Val [\<lparr>cite_name = Val ''Seymore Papert''\<rparr>, \<lparr>cite_name = Val ''Alan Kay''\<rparr>,
                          \<lparr>cite_name = Val ''+2 more''\<rparr>],
     cite_title := Val ''Mindstorms'', cite_year := Val 1980, cite_journal := Val ''J''\<rparr>"

section \<open>Properties\<close>

subsection \<open>normalize\<close>

lemma normalize_falsy_value: "\<not> truthy_num value \<Longrightarrow> normalize value max_value = Inr 0"
  by (simp add: normalize_def)

lemma normalize_falsy_max: "\<not> truthy_num max_value \<Longrightarrow> normalize value max_value = Inr 0"
  by (simp add: normalize_def)

lemma normalize_truthy:
  "v \<noteq> 0 \<Longrightarrow> m \<noteq> 0 \<Longrightarrow> normalize (Some v) (Some m) = Inr (v / m)"
  by (simp add: normalize_def py_truediv_def)

lemma normalize_total: "\<exists>r. normalize value max_value = Inr r"
proof (cases "truthy_num value \<and> truthy_num max_value")
  case True
  then obtain v m where "value = Some v" "max_value = Some m" "v \<noteq> 0" "m \<noteq> 0"
    by (cases "value"; cases max_value) auto
  then show ?thesis by (simp add: normalize_truthy)
next
  case False
  then show ?thesis by (auto simp: normalize_def)
qed



subsection \<open>Abstract reconstruction\<close>

lemma append_positions_eq:
  "append_positions w ps acc = acc @ map (\<lambda>p. (p, w)) ps"
  by (induction ps arbitrary: acc) auto

lemma collect_positions_eq:
  "collect_positions d acc = acc @ concat (map (\<lambda>(w, ps). map (\<lambda>p. (p, w)) ps) d)"
  by (induction d arbitrary: acc) (auto simp: append_positions_eq)

lemma split_on_no_sep: "sep \<notin> set w \<Longrightarrow> split_on sep w = [w]"
  by (induction w) auto

lemma split_on_append_sep:
  "sep \<notin> set w \<Longrightarrow> split_on sep (w @ sep # rest) = w # split_on sep rest"
  by (induction w) auto

lemma split_on_join:
  "ws \<noteq> [] \<Longrightarrow> \<forall>w \<in> set ws. sep \<notin> set w \<Longrightarrow> split_on sep (join [sep] ws) = ws"
proof (induction "[sep]" ws rule: join.induct)
  case 1
  then show ?case by simp
next
  case (2 x)
  then show ?case by (simp add: split_on_no_sep)
next
  case (3 x y ys)
  then show ?case by (simp add: split_on_append_sep)
qed

lemma sorted_fst_of_sorted:
  fixes xs :: "(int \<times> string) list"
  shows "sorted xs \<Longrightarrow> sorted (map fst xs)"
proof (induction xs)
  case Nil
  then show ?case by simp
next
  case (Cons x xs)
  have "fst x \<le> fst y" if "y \<in> set xs" for y
  proof -
    from Cons.prems that have "x \<le> y" by simp
    then show ?thesis by (cases x; cases y) auto
  qed
  with Cons show ?case by simp
qed

text \<open>
  C4. For an inverted index \<open>d\<close>, \<open>reconstruct_abstract\<close> joins with single spaces the
  words of the (position, word) pairs of \<open>d\<close>, sorted ascending by position; when the
  words contain no space and there is at least one pair, splitting the result on
  spaces gives back these words in ascending position order. Absent and empty input
  give the empty string.
\<close>

theorem reconstruct_abstract_spec:
  fixes d :: "(string \<times> int list) list"
  defines "pairs \<equiv> concat (map (\<lambda>(w, ps). map (\<lambda>p. (p, w)) ps) d)"
  shows "reconstruct_abstract None = []
   \<and> reconstruct_abstract (Some []) = []
   \<and> reconstruct_abstract (Some d) = join '' '' (map snd (sort pairs))
   \<and> mset (sort pairs) = mset pairs
   \<and> sorted (map fst (sort pairs))
   \<and> ((\<forall>w \<in> fst ` set d. CHR '' '' \<notin> set w) \<and> pairs \<noteq> []
        \<longrightarrow> split_on CHR '' '' (reconstruct_abstract (Some d)) = map snd (sort pairs))"
proof -
  have r: "reconstruct_abstract (Some d) = join '' '' (map snd (sort pairs))"
    by (cases d) (simp_all add: reconstruct_abstract_def collect_positions_eq pairs_def)
  have s: "sorted (map fst (sort pairs))"
    by (rule sorted_fst_of_sorted) simp
  have rt: "split_on CHR '' '' (reconstruct_abstract (Some d)) = map snd (sort pairs)"
    if nosp: "\<forall>w \<in> fst ` set d. CHR '' '' \<notin> set w" and ne: "pairs \<noteq> []"
  proof -
    have sub: "snd ` set pairs \<subseteq> fst ` set d"
      by (force simp: pairs_def)
    have "\<forall>w \<in> set (map snd (sort pairs)). CHR '' '' \<notin> set w"
    proof
      fix w
      assume "w \<in> set (map snd (sort pairs))"
      then have "w \<in> snd ` set pairs" by simp
      with sub have "w \<in> fst ` set d" by blast
      with nosp show "CHR '' '' \<notin> set w" by blast
    qed
    moreover from ne have "map snd (sort pairs) \<noteq> []"
      by (metis Nil_is_map_conv length_0_conv length_sort)
    ultimately show ?thesis
      unfolding r by (rule split_on_join [rotated])
  qed
  show ?thesis
    using r s rt by (simp add: reconstruct_abstract_def)
qed

theorem reconstruct_abstract_spec_witness:
  "(CHR '' '' \<notin> set ''b'' \<and> CHR '' '' \<notin> set ''a'')
   \<and> reconstruct_abstract (Some [(''b'', [1]), (''a'', [0, 2])]) = ''a b a''
   \<and> split_on CHR '' '' (reconstruct_abstract (Some [(''b'', [1]), (''a'', [0, 2])]))
       = [''a'', ''b'', ''a'']"
  using reconstruct_abstract_spec [of "[(''b'', [1]), (''a'', [0, 2])]"] by simp

subsection \<open>Authors\<close>

lemma authors_loop_append:
  "authors_loop as acc = acc @ authors_loop as []"
proof (induction as arbitrary: acc)
  case Nil
  then show ?case by simp
next
  case (Cons a as)
  show ?case
    using Cons.IH [of "acc @ [x]" for x] Cons.IH [of "[x]" for x] Cons.IH [of acc]
    by (auto simp: Let_def split: option.splits)
qed

lemma length_authors_loop:
  "length (authors_loop as []) = length (filter has_name as)"
proof (induction as)
  case Nil
  then show ?case by simp
next
  case (Cons a as)
  then show ?case
    using authors_loop_append [of as "[x]" for x]
    by (auto simp: Let_def has_name_def split: option.splits)
qed

lemma extract_authors_eq:
  "extract_authors item n =
     authors_loop (take n (raw_authorships item)) []
     @ (if length (raw_authorships item) > n
        then [more_placeholder (length (raw_authorships item) - n)] else [])"
  by (simp add: extract_authors_def raw_authorships_def more_placeholder_def Let_def)

text \<open>
  C9, as the code has it. With \<open>k\<close> raw authorships, the projected author list has at
  most 6 entries: one for each of the first five authorships that carries a
  non-empty display name, and, when \<open>k\<close> exceeds 5, a last entry that is the
  placeholder \<open>+{k-5} more\<close> with empty id and orcid. An item with 7 raw authorships
  whose first five carry a name projects to 6 entries, the last being \<open>+2 more\<close>.
\<close>

theorem extract_authors_spec:
  fixes item :: work_item
  defines "k \<equiv> length (raw_authorships item)"
  shows "length (extract_authors item 5) \<le> 6
    \<and> length (extract_authors item 5)
        = length (filter has_name (take 5 (raw_authorships item))) + (if k > 5 then 1 else 0)
    \<and> (k > 5 \<longrightarrow> extract_authors item 5 \<noteq> []
                 \<and> last (extract_authors item 5) = more_placeholder (k - 5))
    \<and> (k = 7 \<and> list_all has_name (take 5 (raw_authorships item))
         \<longrightarrow> length (extract_authors item 5) = 6
             \<and> last (extract_authors item 5) = more_placeholder 2)"
proof -
  have len: "length (extract_authors item 5)
        = length (filter has_name (take 5 (raw_authorships item))) + (if k > 5 then 1 else 0)"
    by (simp add: extract_authors_eq length_authors_loop k_def)
  have "length (filter has_name (take 5 (raw_authorships item))) \<le> 5"
    by (rule order_trans [OF length_filter_le]) simp
  with len have le: "length (extract_authors item 5) \<le> 6" by simp
  have lastp: "extract_authors item 5 \<noteq> [] \<and> last (extract_authors item 5) = more_placeholder (k - 5)"
    if "k > 5"
    using that by (simp add: extract_authors_eq k_def)
  have seven: "length (extract_authors item 5) = 6 \<and> last (extract_authors item 5) = more_placeholder 2"
    if "k = 7" and all: "list_all has_name (take 5 (raw_authorships item))"
  proof -
    from all have "filter has_name (take 5 (raw_authorships item)) = take 5 (raw_authorships item)"
      by (simp add: list_all_iff)
    with that(1) len lastp show ?thesis by (simp add: k_def)
  qed
  show ?thesis using len le lastp seven by blast
qed

theorem extract_authors_spec_witness:
  "length (raw_authorships seven_named) = 7
   \<and> list_all has_name (take 5 (raw_authorships seven_named))
   \<and> length (extract_authors seven_named 5) = 6
   \<and> last (extract_authors seven_named 5)
       = \<lparr>entry_name = ''+2 more'', entry_id = Some [], entry_orcid = Some []\<rparr>"
proof -
  have k: "length (raw_authorships seven_named) = 7" by code_simp
  have n: "list_all has_name (take 5 (raw_authorships seven_named))" by code_simp
  have m: "more_placeholder 2 = \<lparr>entry_name = ''+2 more'', entry_id = Some [], entry_orcid = Some []\<rparr>"
    by code_simp
  from extract_authors_spec [of seven_named] k n
  have "length (extract_authors seven_named 5) = 6
      \<and> last (extract_authors seven_named 5) = more_placeholder 2"
    by blast
  with k n m show ?thesis by simp
qed

text \<open>
  Seven raw authorships without a display name project to one entry, the placeholder,
  and not to six.
\<close>

theorem extract_authors_counterexample:
  "length (raw_authorships seven_unnamed) = 7
   \<and> extract_authors seven_unnamed 5
     = [\<lparr>entry_name = ''+2 more'', entry_id = Some [], entry_orcid = Some []\<rparr>]"
  by code_simp

subsection \<open>Concepts\<close>

lemma concepts_comprehension_eq:
  "concepts_comprehension cs = Inr es \<Longrightarrow> es = map entry_of_concept (filter qualifies cs)"
proof (induction cs arbitrary: es)
  case Nil
  then show ?case by simp
next
  case (Cons c cs)
  then show ?case
    by (auto simp: qualifies_def entry_of_concept_def confidence_def
             split: option.splits sum.splits if_splits)
qed

lemma concepts_comprehension_ok:
  "(\<exists>es. concepts_comprehension cs = Inr es) \<longleftrightarrow> list_all (\<lambda>c. confidence c \<noteq> None) cs"
  by (induction cs) (auto simp: confidence_def split: option.splits sum.splits)

text \<open>
  C5, as the code has it. The projection looks at the first five raw concepts only
  and keeps, in order, those of confidence above 0.3, each with its confidence
  rounded to 2 decimals; so the list has at most 5 entries and none of confidence at
  most 0.3. For an item with at most five raw concepts this is the projection the
  specification words.
\<close>

theorem extract_concepts_spec:
  assumes "extract_concepts item 5 = Inr es"
  shows "es = map entry_of_concept (filter qualifies (take 5 (raw_concepts item)))
    \<and> length es \<le> 5
    \<and> (\<forall>e \<in> set es. \<exists>c \<in> set (take 5 (raw_concepts item)). \<exists>s.
           confidence c = Some s \<and> s > 3 / 10
           \<and> concept_entry_score e = py_round s 2)
    \<and> (length (raw_concepts item) \<le> 5 \<longrightarrow> es = spec_extract_concepts item 5)"
proof -
  let ?cs = "take 5 (raw_concepts item)"
  from assms have eq: "es = map entry_of_concept (filter qualifies ?cs)"
    by (simp add: extract_concepts_def raw_concepts_def concepts_comprehension_eq)
  have "length (filter qualifies ?cs) \<le> length ?cs" by (rule length_filter_le)
  then have len: "length es \<le> 5" by (simp add: eq)
  have ent: "\<exists>c \<in> set ?cs. \<exists>s. confidence c = Some s \<and> s > 3 / 10 \<and> concept_entry_score e = py_round s 2"
    if "e \<in> set es" for e
  proof -
    from that eq obtain c where c: "c \<in> set ?cs" "qualifies c" "e = entry_of_concept c"
      by auto
    from c(2) obtain s where "confidence c = Some s" "s > 3 / 10"
      by (auto simp: qualifies_def split: option.splits)
    with c show ?thesis by (auto simp: entry_of_concept_def)
  qed
  have sp: "es = spec_extract_concepts item 5" if "length (raw_concepts item) \<le> 5"
  proof -
    have "length (filter qualifies (raw_concepts item)) \<le> 5"
      using that length_filter_le [of qualifies "raw_concepts item"] by linarith
    with that show ?thesis by (simp add: eq spec_extract_concepts_def)
  qed
  show ?thesis using eq len ent sp by blast
qed

theorem extract_concepts_spec_witness:
  "extract_concepts three_concepts 5
     = Inr [\<lparr>concept_name = Some ''a'', concept_entry_score = 9 / 10\<rparr>,
            \<lparr>concept_name = Some [], concept_entry_score = 46 / 100\<rparr>]
   \<and> length (raw_concepts three_concepts) \<le> 5
   \<and> spec_extract_concepts three_concepts 5
     = [\<lparr>concept_name = Some ''a'', concept_entry_score = 9 / 10\<rparr>,
        \<lparr>concept_name = Some [], concept_entry_score = 46 / 100\<rparr>]"
proof -
  have e: "extract_concepts three_concepts 5
     = Inr [\<lparr>concept_name = Some ''a'', concept_entry_score = 9 / 10\<rparr>,
            \<lparr>concept_name = Some [], concept_entry_score = 46 / 100\<rparr>]"
    by code_simp
  have l: "length (raw_concepts three_concepts) \<le> 5" by code_simp
  from extract_concepts_spec [OF e] l
  have s: "[\<lparr>concept_name = Some ''a'', concept_entry_score = 9 / 10\<rparr>,
            \<lparr>concept_name = Some [], concept_entry_score = 46 / 100\<rparr>]
           = spec_extract_concepts three_concepts 5"
    by blast
  show ?thesis by (intro conjI e l s [symmetric])
qed

text \<open>
  The sixth concept qualifies and is the only one that does: the specification's
  projection keeps it, the code's slice of the first five drops it.
\<close>

theorem extract_concepts_counterexample:
  "extract_concepts low_then_high 5 = Inr []
   \<and> spec_extract_concepts low_then_high 5
      = [\<lparr>concept_name = Some ''high'', concept_entry_score = 9 / 10\<rparr>]"
  by code_simp

subsection \<open>Component scores\<close>

lemma citation_score_total: "\<exists>c. citation_score citations mc = Inr c"
  using normalize_total by (simp add: citation_score_def)

lemma recency_score_total: "\<exists>r. recency_score year sy ey = Inr r"
  using normalize_total by (simp add: recency_score_def split: option.splits)








subsection \<open>Hybrid score\<close>








subsection \<open>Defaults\<close>

lemma safe_journal_info_defaults:
  "primary_location item = Missing \<or> primary_location item = Null
     \<or> (\<exists>l. primary_location item = Val l \<and> (source l = Missing \<or> source l = Null))
   \<Longrightarrow> safe_journal_info item = (''Unknown Journal'', ''Unknown Publisher'')"
  by (auto simp: safe_journal_info_def empty_location_def empty_source_def)

lemma get_default_None: "get_default f d = None \<longleftrightarrow> f = Null"
  by (cases f) auto

lemma build_paper_result_ok:
  assumes "open_access item \<noteq> Null"
    and "list_all (\<lambda>c. concept_score c \<noteq> Null) (take 5 (raw_concepts item))"
  shows "\<exists>p. build_paper_result q item sy ey mc = Inr p"
proof -
  obtain cs where cs: "citation_score (get_default (cited_by_count item) 0) mc = Inr cs"
    using citation_score_total by blast
  obtain rs where rs: "recency_score (get_default (publication_year item) 0) sy ey = Inr rs"
    using recency_score_total by blast
  have "list_all (\<lambda>c. confidence c \<noteq> None) (take 5 (raw_concepts item))"
    using assms(2) by (simp add: list_all_iff confidence_def get_default_None)
  then obtain es where es: "extract_concepts item 5 = Inr es"
    using concepts_comprehension_ok [of "take 5 (raw_concepts item)"]
    by (auto simp: extract_concepts_def raw_concepts_def)
  from assms(1) obtain oa where oa: "get_default (open_access item) empty_open_access = Some oa"
    by (cases "open_access item") auto
  show ?thesis
    by (simp add: build_paper_result_def Let_def cs rs es oa split: prod.splits)
qed

text \<open>
  C6 fails on the code. A raw item whose \<^verbatim>\<open>open_access\<close> member is null makes
  \<^verbatim>\<open>item.get("open_access", {})\<close> evaluate to \<^verbatim>\<open>None\<close>, and the projection raises
  \<^verbatim>\<open>AttributeError\<close>; the other nested objects are read with \<^verbatim>\<open>or {}\<close> and degrade
  to their defaults.
\<close>

theorem null_open_access_raises:
  "build_paper_result quote (blank_item\<lparr>open_access := Null\<rparr>) start_year end_year max_citations
     = Inl AttributeError"
proof -
  have c: "citation_score (Some 0) max_citations = Inr 0"
    by (simp add: citation_score_def normalize_def)
  have r: "recency_score (Some 0) start_year end_year = Inr 0"
    by (simp add: recency_score_def)
  show ?thesis
    by (simp add: build_paper_result_def Let_def blank_item_def c r extract_concepts_def
             split: prod.splits)
qed

subsection \<open>Order of the search results\<close>





subsection \<open>Provider selection\<close>

lemma split_on_head: "\<exists>rest. split_on sep s = takeWhile (\<lambda>c. c \<noteq> sep) s # rest"
  by (induction s) auto

lemma split_first_eq: "split_first s = Inr (strip_tag s)"
  using split_on_head [of "CHR '':''" s] by (auto simp: split_first_def strip_tag_def)

lemma model_names_eq:
  "model_names ms =
     (if list_all (\<lambda>m. listed_name m \<noteq> None) ms
      then Inr (map (\<lambda>m. strip_tag (case listed_name m of None \<Rightarrow> [] | Some n \<Rightarrow> n)) ms)
      else Inl AttributeError)"
  by (induction ms) (auto simp: split_first_eq split: option.splits)

lemma check_ollama_available_eq:
  "check_ollama_available cfg reply = local_selected cfg reply"
proof (cases reply)
  case RequestFailed
  then show ?thesis
    by (simp add: check_ollama_available_def check_ollama_try_def local_selected_def probe_models_def)
next
  case (Reply st body)
  then show ?thesis
    by (auto simp: check_ollama_available_def check_ollama_try_def local_selected_def
          probe_models_def model_names_eq split_first_eq comp_def
          split: option.splits)
qed

text \<open>
  C7. In mode \<^verbatim>\<open>auto\<close> the local provider is selected if and only if the probe of
  its model list succeeds and the configured model name, without its tag, is among
  the listed names without their tags; otherwise the remote provider is selected if
  and only if a remote credential is configured; otherwise none is. With the local
  provider unreachable and no credential, none is selected.
\<close>

theorem auto_provider_spec:
  assumes "LLM_PROVIDER cfg = ''auto''"
  shows "get_active_llm_provider cfg reply =
           (if local_selected cfg reply then Some ''ollama''
            else if OPENAI_API_KEY cfg \<noteq> [] then Some ''openai''
            else None)
    \<and> (get_active_llm_provider cfg reply = Some ''ollama'' \<longleftrightarrow> local_selected cfg reply)
    \<and> (get_active_llm_provider cfg reply = Some ''openai''
         \<longleftrightarrow> \<not> local_selected cfg reply \<and> OPENAI_API_KEY cfg \<noteq> [])
    \<and> (get_active_llm_provider cfg reply = None
         \<longleftrightarrow> \<not> local_selected cfg reply \<and> OPENAI_API_KEY cfg = [])
    \<and> (local_selected cfg reply \<longleftrightarrow>
          (\<exists>names. probe_models reply = Some names
             \<and> strip_tag (OLLAMA_MODEL cfg) \<in> strip_tag ` set names))
    \<and> (reply = RequestFailed \<and> OPENAI_API_KEY cfg = []
         \<longrightarrow> get_active_llm_provider cfg reply = None)"
proof -
  have g: "get_active_llm_provider cfg reply =
           (if local_selected cfg reply then Some ''ollama''
            else if OPENAI_API_KEY cfg \<noteq> [] then Some ''openai''
            else None)"
    using assms by (simp add: get_active_llm_provider_def check_ollama_available_eq)
  have l: "local_selected cfg reply \<longleftrightarrow>
          (\<exists>names. probe_models reply = Some names
             \<and> strip_tag (OLLAMA_MODEL cfg) \<in> strip_tag ` set names)"
    by (auto simp: local_selected_def split: option.splits)
  have f: "\<not> local_selected cfg RequestFailed"
    by (simp add: local_selected_def probe_models_def)
  show ?thesis using g l f by auto
qed

theorem auto_provider_spec_witness:
  "LLM_PROVIDER (auto_cfg []) = ''auto''
   \<and> get_active_llm_provider (auto_cfg []) RequestFailed = None
   \<and> get_active_llm_provider (auto_cfg ''sk-1'') RequestFailed = Some ''openai''
   \<and> get_active_llm_provider (auto_cfg []) tags_ok = Some ''ollama''
   \<and> local_selected (auto_cfg []) tags_ok"
proof -
  have a: "LLM_PROVIDER (auto_cfg key) = ''auto''" for key by (simp add: auto_cfg_def)
  have k: "OPENAI_API_KEY (auto_cfg []) = []" "OPENAI_API_KEY (auto_cfg ''sk-1'') \<noteq> []"
    by (simp_all add: auto_cfg_def)
  have s: "local_selected (auto_cfg []) tags_ok" by code_simp
  have n: "get_active_llm_provider (auto_cfg []) RequestFailed = None"
    using auto_provider_spec [OF a, of "[]" RequestFailed] k by blast
  have o: "get_active_llm_provider (auto_cfg ''sk-1'') RequestFailed = Some ''openai''"
    using auto_provider_spec [OF a, of "''sk-1''" RequestFailed] k
    by (simp add: local_selected_def probe_models_def)
  have l: "get_active_llm_provider (auto_cfg []) tags_ok = Some ''ollama''"
    using auto_provider_spec [OF a, of "[]" tags_ok] s by blast
  show ?thesis by (intro conjI a n o l s)
qed

subsection \<open>Citation formatting\<close>

lemma author_names_filter:
  "author_names (filter (\<lambda>a. \<not> name_has_more a) as) = author_names as"
  by (induction as) (auto simp: name_has_more_def split: option.splits)

lemma author_names_set:
  "set (author_names as)
     = {n. \<exists>a \<in> set as. cite_name a = Val n \<and> n \<noteq> [] \<and> \<not> str_contains ''more'' n}"
proof (induction as)
  case Nil
  then show ?case by simp
next
  case (Cons a as)
  show ?case
  proof (cases "cite_name a")
    case (Val n)
    with Cons show ?thesis by auto
  qed (use Cons in auto)
qed

lemma format_bibtex_filter:
  "cite_authors paper = Val as \<Longrightarrow>
     format_bibtex (paper\<lparr>cite_authors := Val (filter (\<lambda>a. \<not> name_has_more a) as)\<rparr>)
       = format_bibtex paper"
  by (simp add: format_bibtex_def bibtex_key_def author_names_filter Let_def
        split: sum.splits option.splits)

lemma format_apa_filter:
  "cite_authors paper = Val as \<Longrightarrow>
     format_apa (paper\<lparr>cite_authors := Val (filter (\<lambda>a. \<not> name_has_more a) as)\<rparr>)
       = format_apa paper"
  by (simp add: format_apa_def author_names_filter Let_def)

text \<open>
  C10. Both formatters leave out every author whose name contains \<^verbatim>\<open>more\<close>: the
  citation is the one of the request without these authors, and no such name is
  among the rendered names. This goes beyond the placeholder \<open>+N more\<close>: the genuine
  author \<^verbatim>\<open>Seymore Papert\<close> is dropped from both citations of the example.
\<close>

theorem citation_more_excluded:
  "(cite_authors paper = Val as \<longrightarrow>
      format_bibtex paper
        = format_bibtex (paper\<lparr>cite_authors := Val (filter (\<lambda>a. \<not> name_has_more a) as)\<rparr>)
      \<and> format_apa paper
        = format_apa (paper\<lparr>cite_authors := Val (filter (\<lambda>a. \<not> name_has_more a) as)\<rparr>))
   \<and> (\<forall>a \<in> set as. \<forall>n. cite_name a = Val n \<and> str_contains ''more'' n
          \<longrightarrow> name_has_more a \<and> n \<notin> set (author_names as))
   \<and> name_has_more \<lparr>cite_name = Val ''Seymore Papert''\<rparr>
   \<and> format_apa papert_paper = Inr ''Alan Kay (1980). Mindstorms. *J*.''
   \<and> format_bibtex papert_paper
       = Inr (''@article{Mindstorms,'' @ newline
              @ ''  title = {Mindstorms},'' @ newline
              @ ''  author = {Alan Kay},'' @ newline
              @ ''  journal = {J},'' @ newline
              @ ''  year = {1980},'' @ newline
              @ ''  doi = {},'' @ newline
              @ ''  publisher = {}'' @ newline
              @ ''}'' @ newline)"
proof (intro conjI)
  show "cite_authors paper = Val as \<longrightarrow>
      format_bibtex paper
        = format_bibtex (paper\<lparr>cite_authors := Val (filter (\<lambda>a. \<not> name_has_more a) as)\<rparr>)
      \<and> format_apa paper
        = format_apa (paper\<lparr>cite_authors := Val (filter (\<lambda>a. \<not> name_has_more a) as)\<rparr>)"
    using format_bibtex_filter [of paper as] format_apa_filter [of paper as] by simp
  show "\<forall>a \<in> set as. \<forall>n. cite_name a = Val n \<and> str_contains ''more'' n
          \<longrightarrow> name_has_more a \<and> n \<notin> set (author_names as)"
    by (auto simp: author_names_set name_has_more_def)
  show "name_has_more \<lparr>cite_name = Val ''Seymore Papert''\<rparr>"
    by code_simp
  show "format_apa papert_paper = Inr ''Alan Kay (1980). Mindstorms. *J*.''"
    by code_simp
  show "format_bibtex papert_paper
       = Inr (''@article{Mindstorms,'' @ newline
              @ ''  title = {Mindstorms},'' @ newline
              @ ''  author = {Alan Kay},'' @ newline
              @ ''  journal = {J},'' @ newline
              @ ''  year = {1980},'' @ newline
              @ ''  doi = {},'' @ newline
              @ ''  publisher = {}'' @ newline
              @ ''}'' @ newline)"
    by code_simp
qed

theorem citation_more_excluded_witness:
  "cite_authors papert_paper
     = Val [\<lparr>cite_name = Val ''Seymore Papert''\<rparr>, \<lparr>cite_name = Val ''Alan Kay''\<rparr>,
            \<lparr>cite_name = Val ''+2 more''\<rparr>]
   \<and> str_contains ''more'' ''Seymore Papert''
   \<and> ''Seymore Papert'' \<notin> set (author_names
        [\<lparr>cite_name = Val ''Seymore Papert''\<rparr>, \<lparr>cite_name = Val ''Alan Kay''\<rparr>,
         \<lparr>cite_name = Val ''+2 more''\<rparr>])
   \<and> format_apa papert_paper
       = format_apa (papert_paper\<lparr>cite_authors := Val [\<lparr>cite_name = Val ''Alan Kay''\<rparr>]\<rparr>)
   \<and> format_bibtex papert_paper
       = format_bibtex (papert_paper\<lparr>cite_authors := Val [\<lparr>cite_name = Val ''Alan Kay''\<rparr>]\<rparr>)"
proof -
  let ?as = "[\<lparr>cite_name = Val ''Seymore Papert''\<rparr>, \<lparr>cite_name = Val ''Alan Kay''\<rparr>,
              \<lparr>cite_name = Val ''+2 more''\<rparr>]"
  have a: "cite_authors papert_paper = Val ?as" by (simp add: papert_paper_def)
  have c: "str_contains ''more'' ''Seymore Papert''" by code_simp
  have f: "filter (\<lambda>a. \<not> name_has_more a) ?as = [\<lparr>cite_name = Val ''Alan Kay''\<rparr>]"
    by code_simp
  from citation_more_excluded [of papert_paper ?as] a c f
  show ?thesis by simp
qed

end
